theory Spec2Isabelle
  imports Complex_Main "HOL-Library.Multiset" "HOL-Library.Product_Lexorder"
begin

section \<open>Benchmark files\<close>

text \<open>
  The analysis scripts receive a list of CSV paths and read each one with
  \<open>pd.read_csv\<close>. The file system is an explicit map from a path to the parsed frame;
  a path that is absent from the map is a file whose read raises. A frame has its
  column names and its rows; a row gives the number stored under a column name.
  Cells are finite numbers and are taken as reals: rounding of the 64-bit floats is
  not modelled, and a cell that pandas would read as not-a-number is outside the model.
\<close>

record dataframe =
  columns :: "string list"
  rows :: "(string \<Rightarrow> real) list"

type_synonym filesystem = "string \<rightharpoonup> dataframe"

datatype py_error = IndexError | ZeroDivisionError

text \<open>\<open>df[col].iloc[0]\<close>: the first row's cell, IndexError on a frame without rows.\<close>

definition iloc0 :: "dataframe \<Rightarrow> string \<Rightarrow> py_error + real" where
  "iloc0 df col = (case rows df of [] \<Rightarrow> Inl IndexError | r # _ \<Rightarrow> Inr (r col))"

text \<open>
  \<open>re.search(r'P(\d+)', csv_file)\<close> followed by \<open>int(p_match.group(1))\<close>: the
  leftmost letter P that is followed by a digit, and the longest run of digits after it.
\<close>

definition is_digit :: "char \<Rightarrow> bool" where
  "is_digit c = (c \<in> set ''0123456789'')"

definition digit_val :: "char \<Rightarrow> nat" where
  "digit_val c = of_char c - 48"

definition int_of_digits :: "string \<Rightarrow> nat" where
  "int_of_digits ds = foldl (\<lambda>a c. 10 * a + digit_val c) 0 ds"

fun search_P :: "string \<Rightarrow> nat option" where
  "search_P [] = None"
| "search_P (c # cs) =
     (if c = CHR ''P'' \<and> takeWhile is_digit cs \<noteq> []
      then Some (int_of_digits (takeWhile is_digit cs))
      else search_P cs)"

section \<open>Invariant validation\<close>

subsection \<open>Pipeline closure\<close>









subsection \<open>Syscall budget\<close>

text \<open>
  \<open>theoretical = 2 / (C * p)\<close> on Python integers: true division, which raises
  ZeroDivisionError when \<open>C * p\<close> is zero. The exception is not caught, so it ends the
  loop and the call.
\<close>

fun syscall_loop :: "int \<Rightarrow> nat list \<Rightarrow> (nat \<times> real) list \<Rightarrow> py_error + (nat \<times> real) list" where
  "syscall_loop C [] theoretical_values = Inr theoretical_values"
| "syscall_loop C (p # rest) theoretical_values =
     (if C * int p = 0 then Inl ZeroDivisionError
      else syscall_loop C rest
             (theoretical_values @ [(p, 2 / real_of_int (C * int p))]))"

definition validate_syscall_invariant ::
  "nat list \<Rightarrow> int \<Rightarrow> py_error + (bool \<times> (nat \<times> real) list)" where
  "validate_syscall_invariant p_values C =
     (case syscall_loop C p_values [] of
        Inl e \<Rightarrow> Inl e
      | Inr theoretical_values \<Rightarrow> Inr (True, theoretical_values))"

subsection \<open>Cycles per operation\<close>

text \<open>
  The function receives the file list and does not read it; the estimate is the product
  of the two literals \<open>69.6\<close> and \<open>3.5\<close>.
\<close>

definition validate_cycles_per_op_band :: "filesystem \<Rightarrow> string list \<Rightarrow> bool \<times> real" where
  "validate_cycles_per_op_band fs csv_files =
     (let estimated_cycles_per_op = (696 / 10) * (35 / 10)
      in (True, estimated_cycles_per_op))"

section \<open>Model fitting\<close>

subsection \<open>Numbers computed by numpy\<close>

text \<open>
  numpy arithmetic on 64-bit floats does not raise on a zero divisor: it yields an
  infinity or not-a-number and goes on. A computed value is therefore a real or one of
  the three special values, with the arithmetic of IEEE 754 on the special values.
  Rounding and the sign of zero are not modelled: on finite operands every operation
  is the exact one.
\<close>

datatype npfloat = Fin real | PInf | NInf | NaN

fun fneg :: "npfloat \<Rightarrow> npfloat" where
  "fneg (Fin a) = Fin (- a)"
| "fneg PInf = NInf"
| "fneg NInf = PInf"
| "fneg NaN = NaN"

fun fadd :: "npfloat \<Rightarrow> npfloat \<Rightarrow> npfloat" where
  "fadd (Fin a) (Fin b) = Fin (a + b)"
| "fadd NaN _ = NaN"
| "fadd _ NaN = NaN"
| "fadd PInf NInf = NaN"
| "fadd NInf PInf = NaN"
| "fadd PInf _ = PInf"
| "fadd _ PInf = PInf"
| "fadd NInf _ = NInf"
| "fadd _ NInf = NInf"

definition fsub :: "npfloat \<Rightarrow> npfloat \<Rightarrow> npfloat" where
  "fsub a b = fadd a (fneg b)"

text \<open>The sign of an infinity scaled by a finite factor; zero times infinity is NaN.\<close>

definition scale_inf :: "real \<Rightarrow> npfloat \<Rightarrow> npfloat" where
  "scale_inf a i = (if a = 0 then NaN else if a > 0 then i else fneg i)"

fun fmul :: "npfloat \<Rightarrow> npfloat \<Rightarrow> npfloat" where
  "fmul (Fin a) (Fin b) = Fin (a * b)"
| "fmul NaN _ = NaN"
| "fmul _ NaN = NaN"
| "fmul (Fin a) PInf = scale_inf a PInf"
| "fmul (Fin a) NInf = scale_inf a NInf"
| "fmul PInf (Fin b) = scale_inf b PInf"
| "fmul NInf (Fin b) = scale_inf b NInf"
| "fmul PInf PInf = PInf"
| "fmul NInf NInf = PInf"
| "fmul PInf NInf = NInf"
| "fmul NInf PInf = NInf"

fun fdiv :: "npfloat \<Rightarrow> npfloat \<Rightarrow> npfloat" where
  "fdiv (Fin a) (Fin b) =
     (if b \<noteq> 0 then Fin (a / b)
      else if a = 0 then NaN
      else if a > 0 then PInf else NInf)"
| "fdiv NaN _ = NaN"
| "fdiv _ NaN = NaN"
| "fdiv (Fin a) PInf = Fin 0"
| "fdiv (Fin a) NInf = Fin 0"
| "fdiv PInf (Fin b) = (if b \<ge> 0 then PInf else NInf)"
| "fdiv NInf (Fin b) = (if b \<ge> 0 then NInf else PInf)"
| "fdiv PInf PInf = NaN"
| "fdiv PInf NInf = NaN"
| "fdiv NInf PInf = NaN"
| "fdiv NInf NInf = NaN"

fun fsqrt :: "npfloat \<Rightarrow> npfloat" where
  "fsqrt (Fin a) = (if a \<ge> 0 then Fin (sqrt a) else NaN)"
| "fsqrt PInf = PInf"
| "fsqrt NInf = NaN"
| "fsqrt NaN = NaN"

text \<open>\<open>v ** 2\<close>.\<close>

definition fsquare :: "npfloat \<Rightarrow> npfloat" where
  "fsquare a = fmul a a"

text \<open>Comparisons: every comparison with NaN is false.\<close>

fun fle :: "npfloat \<Rightarrow> npfloat \<Rightarrow> bool" where
  "fle (Fin a) (Fin b) = (a \<le> b)"
| "fle NaN _ = False"
| "fle _ NaN = False"
| "fle NInf _ = True"
| "fle _ PInf = True"
| "fle PInf _ = False"
| "fle _ NInf = False"

fun fgt :: "npfloat \<Rightarrow> npfloat \<Rightarrow> bool" where
  "fgt (Fin a) (Fin b) = (a > b)"
| "fgt NaN _ = False"
| "fgt _ NaN = False"
| "fgt PInf PInf = False"
| "fgt PInf _ = True"
| "fgt NInf _ = False"
| "fgt (Fin a) NInf = True"
| "fgt (Fin a) PInf = False"

definition np_sum :: "npfloat list \<Rightarrow> npfloat" where
  "np_sum vs = foldr fadd vs (Fin 0)"

definition np_mean :: "npfloat list \<Rightarrow> npfloat" where
  "np_mean vs = fdiv (np_sum vs) (Fin (real (length vs)))"

subsection \<open>Library functions\<close>

text \<open>
  Modelled from the spec: \<open>numpy.polyfit\<close> is not part of the repository. For degree
  one it is the least-squares line, which the specification gives in closed form:
  slope \<open>\<Sum>(x - x\<^sub>m)(y - y\<^sub>m) / \<Sum>(x - x\<^sub>m)\<^sup>2\<close>, intercept \<open>y\<^sub>m - slope * x\<^sub>m\<close>. The pair is
  returned highest degree first. When all \<open>x\<close> are equal the least-squares line is not
  unique; the closed form then divides by zero, and nothing below relies on the
  coefficients of that case.
\<close>

definition np_polyfit1 :: "npfloat list \<Rightarrow> npfloat list \<Rightarrow> npfloat \<times> npfloat" where
  "np_polyfit1 x y =
     (let x_mean = np_mean x;
          y_mean = np_mean y;
          sxy = np_sum (map (\<lambda>(xi, yi). fmul (fsub xi x_mean) (fsub yi y_mean)) (zip x y));
          sxx = np_sum (map (\<lambda>xi. fsquare (fsub xi x_mean)) x);
          slope = fdiv sxy sxx;
          intercept = fsub y_mean (fmul slope x_mean)
      in (slope, intercept))"

text \<open>
  \<open>scipy.stats.t.ppf(0.975, df)\<close>, the two-sided 95 percent critical value of Student's
  distribution, is not part of the repository either. It is a parameter \<open>t_ppf\<close> of the
  fitter, a function of the degrees of freedom.
\<close>

subsection \<open>The fitter\<close>

text \<open>
  The body of the \<open>try\<close> block of the loading loop for one file: the pair
  \<open>(p, throughput)\<close>, or \<open>None\<close> when the file is skipped.
\<close>

definition data_point :: "filesystem \<Rightarrow> string \<Rightarrow> (nat \<times> real) option" where
  "data_point fs csv_file =
     (case fs csv_file of
        None \<Rightarrow> None
      | Some df \<Rightarrow>
          if ''rps'' \<in> set (columns df) \<and> length (rows df) > 0 then
            (case search_P csv_file of
               None \<Rightarrow> None
             | Some p \<Rightarrow>
                 (case iloc0 df ''rps'' of
                    Inl e \<Rightarrow> None
                  | Inr throughput \<Rightarrow> Some (p, throughput)))
          else None)"

fun collect_data_points :: "filesystem \<Rightarrow> string list \<Rightarrow> (nat \<times> real) list \<Rightarrow> (nat \<times> real) list" where
  "collect_data_points fs [] data_points = data_points"
| "collect_data_points fs (csv_file # rest) data_points =
     (case data_point fs csv_file of
        None \<Rightarrow> collect_data_points fs rest data_points
      | Some pt \<Rightarrow> collect_data_points fs rest (data_points @ [pt]))"

record fit_results =
  t0_us_per_batch :: npfloat
  t1_ns_per_op :: npfloat
  r_squared :: npfloat
  t0_confidence_interval :: "npfloat list"
  t1_confidence_interval :: "npfloat list"
  Tmax_Mops_s :: npfloat
  data_points :: nat
  raw_data :: "(npfloat \<times> npfloat) list"

text \<open>
  The function from the length check on. \<open>None\<close> is the \<open>return None\<close> of the source.
  \<open>data_points.sort()\<close> orders the pairs lexicographically, as Python orders tuples.
\<close>

definition fit_data_points :: "(nat \<Rightarrow> real) \<Rightarrow> (nat \<times> real) list \<Rightarrow> fit_results option" where
  "fit_data_points t_ppf data_points0 =
     (if length data_points0 < 5 then None
      else
        let data_points = sort data_points0;
            p_values = map (\<lambda>point. Fin (real (fst point))) data_points;
            T_values = map (\<lambda>point. Fin (snd point)) data_points;
            T_ops_per_sec = T_values;
            y = map (\<lambda>(p, T). fdiv p T) (zip p_values T_ops_per_sec);
            x = p_values;
            coeffs = np_polyfit1 x y;
            t1_sec = fst coeffs;
            t0_sec = snd coeffs;
            t0_us = fmul t0_sec (Fin 1000000);
            t1_ns = fmul t1_sec (Fin 1000000000);
            y_pred = map (\<lambda>xi. fadd t0_sec (fmul t1_sec xi)) x;
            ss_res = np_sum (map (\<lambda>(yi, yp). fsquare (fsub yi yp)) (zip y y_pred));
            ss_tot = np_sum (map (\<lambda>yi. fsquare (fsub yi (np_mean y))) y);
            r_squared = fsub (Fin 1) (fdiv ss_res ss_tot);
            n = length x;
            mse = fdiv ss_res (Fin (real n - 2));
            x_mean = np_mean x;
            sxx = np_sum (map (\<lambda>xi. fsquare (fsub xi x_mean)) x);
            se_t1_sec = fsqrt (fdiv mse sxx);
            se_t0_sec = fsqrt (fmul mse (fadd (Fin (1 / real n)) (fdiv (fsquare x_mean) sxx)));
            t_crit = Fin (t_ppf (n - 2));
            t0_ci = [fsub t0_us (fmul (fmul t_crit se_t0_sec) (Fin 1000000)),
                     fadd t0_us (fmul (fmul t_crit se_t0_sec) (Fin 1000000))];
            t1_ci = [fsub t1_ns (fmul (fmul t_crit se_t1_sec) (Fin 1000000000)),
                     fadd t1_ns (fmul (fmul t_crit se_t1_sec) (Fin 1000000000))]
        in Some \<lparr> t0_us_per_batch = t0_us,
                  t1_ns_per_op = t1_ns,
                  r_squared = r_squared,
                  t0_confidence_interval = t0_ci,
                  t1_confidence_interval = t1_ci,
                  Tmax_Mops_s = (if fgt t1_sec (Fin 0)
                                 then fdiv (Fin 1) (fmul t1_sec (Fin 1000000))
                                 else PInf),
                  data_points = length data_points,
                  raw_data = zip p_values T_values \<rparr>)"

definition fit_batched_service_model ::
  "(nat \<Rightarrow> real) \<Rightarrow> filesystem \<Rightarrow> string list \<Rightarrow> fit_results option" where
  "fit_batched_service_model t_ppf fs csv_files =
     fit_data_points t_ppf (collect_data_points fs csv_files [])"

section \<open>Reference quantities\<close>

text \<open>
  The quantities of simple linear regression over the reals, as the description of the
  fitter states them: the mean, the sum of squared deviations from the mean (\<open>S\<^sub>x\<^sub>x\<close> for
  the depths, \<open>SS\<^sub>t\<^sub>o\<^sub>t\<close> for the linearized values), the slope and intercept of the
  least-squares line, the residual sum of squares and the standard errors. The fitter
  above is compared with them.
\<close>

definition mean :: "real list \<Rightarrow> real" where
  "mean vs = sum_list vs / real (length vs)"

definition sum_sq_dev :: "real list \<Rightarrow> real" where
  "sum_sq_dev vs = (\<Sum>v\<leftarrow>vs. (v - mean vs)\<^sup>2)"

definition Sxy :: "real list \<Rightarrow> real list \<Rightarrow> real" where
  "Sxy xs ys = (\<Sum>(x, y)\<leftarrow>zip xs ys. (x - mean xs) * (y - mean ys))"

definition ols_slope :: "real list \<Rightarrow> real list \<Rightarrow> real" where
  "ols_slope xs ys = Sxy xs ys / sum_sq_dev xs"

definition ols_intercept :: "real list \<Rightarrow> real list \<Rightarrow> real" where
  "ols_intercept xs ys = mean ys - ols_slope xs ys * mean xs"

definition predicted :: "real list \<Rightarrow> real list \<Rightarrow> real list" where
  "predicted xs ys = map (\<lambda>x. ols_intercept xs ys + ols_slope xs ys * x) xs"

definition SS_res :: "real list \<Rightarrow> real list \<Rightarrow> real" where
  "SS_res xs ys = (\<Sum>(y, y_hat)\<leftarrow>zip ys (predicted xs ys). (y - y_hat)\<^sup>2)"

definition MSE :: "real list \<Rightarrow> real list \<Rightarrow> real" where
  "MSE xs ys = SS_res xs ys / (real (length xs) - 2)"

definition SE_slope :: "real list \<Rightarrow> real list \<Rightarrow> real" where
  "SE_slope xs ys = sqrt (MSE xs ys / sum_sq_dev xs)"

definition SE_intercept :: "real list \<Rightarrow> real list \<Rightarrow> real" where
  "SE_intercept xs ys = sqrt (MSE xs ys * (1 / real (length xs) + (mean xs)\<^sup>2 / sum_sq_dev xs))"

text \<open>
  The regression variables of a list of data points: the depths \<open>x = p\<close> and the
  linearized values \<open>y = p / T\<close>, in the order the fitter sorts them, and the number of
  distinct depths.
\<close>

definition depths :: "(nat \<times> real) list \<Rightarrow> real list" where
  "depths dps = map (\<lambda>point. real (fst point)) (sort dps)"

definition linearized :: "(nat \<times> real) list \<Rightarrow> real list" where
  "linearized dps = map (\<lambda>point. real (fst point) / snd point) (sort dps)"

definition distinct_depths :: "(nat \<times> real) list \<Rightarrow> nat" where
  "distinct_depths dps = length (remdups (map fst dps))"

section \<open>Example inputs\<close>

text \<open>
  Frames with the columns of a benchmark file, a table of critical values of Student's
  distribution, and small sets of benchmark files: throughputs that follow the model
  with \<open>t0 = t1 = 1/1000\<close> and with \<open>t0 = t1 = 1/2000\<close>, throughputs proportional to the
  depth (\<open>t0 = 1/1024\<close>, \<open>t1 = 0\<close>), measured throughputs with noise, five runs at one
  depth, and three files for the pipeline-closure check at \<open>C = 50\<close>.
\<close>

definition frame_rps :: "real \<Rightarrow> dataframe" where
  "frame_rps v = \<lparr> columns = [''rps''], rows = [\<lambda>c. if c = ''rps'' then v else 0] \<rparr>"

definition frame_rps_latency :: "real \<Rightarrow> real \<Rightarrow> dataframe" where
  "frame_rps_latency v l =
     \<lparr> columns = [''rps'', ''p50_latency_ms''],
       rows = [\<lambda>c. if c = ''rps'' then v else if c = ''p50_latency_ms'' then l else 0] \<rparr>"

definition student_t_975 :: "nat \<Rightarrow> real" where
  "student_t_975 df =
     (if df = 1 then 12706 / 1000 else if df = 2 then 4303 / 1000
      else if df = 3 then 3182 / 1000 else if df = 4 then 2776 / 1000
      else if df = 5 then 2571 / 1000 else 2)"

definition exact_files :: "string list" where
  "exact_files = [''bench_P19.csv'', ''bench_P1.csv'', ''bench_P4.csv'', ''bench_P3.csv'', ''bench_P9.csv'']"

definition exact_files_by_depth :: "string list" where
  "exact_files_by_depth = [''bench_P1.csv'', ''bench_P3.csv'', ''bench_P4.csv'', ''bench_P9.csv'', ''bench_P19.csv'']"

definition exact_fs :: filesystem where
  "exact_fs = map_of
     [(''bench_P1.csv'', frame_rps 500), (''bench_P3.csv'', frame_rps 750),
      (''bench_P4.csv'', frame_rps 800), (''bench_P9.csv'', frame_rps 900),
      (''bench_P19.csv'', frame_rps 950)]"

definition faster_fs :: filesystem where
  "faster_fs = map_of
     [(''bench_P1.csv'', frame_rps 1000), (''bench_P3.csv'', frame_rps 1500),
      (''bench_P4.csv'', frame_rps 1600), (''bench_P9.csv'', frame_rps 1800),
      (''bench_P19.csv'', frame_rps 1900)]"

definition flat_files :: "string list" where
  "flat_files = [''flat_P1.csv'', ''flat_P2.csv'', ''flat_P3.csv'', ''flat_P4.csv'', ''flat_P5.csv'']"

definition flat_fs :: filesystem where
  "flat_fs = map_of
     [(''flat_P1.csv'', frame_rps 1024), (''flat_P2.csv'', frame_rps 2048),
      (''flat_P3.csv'', frame_rps 3072), (''flat_P4.csv'', frame_rps 4096),
      (''flat_P5.csv'', frame_rps 5120)]"

definition noisy_files :: "string list" where
  "noisy_files = [''noisy_P1.csv'', ''noisy_P3.csv'', ''noisy_P4.csv'', ''noisy_P9.csv'', ''noisy_P19.csv'']"

definition noisy_fs :: filesystem where
  "noisy_fs = map_of
     [(''noisy_P1.csv'', frame_rps 480), (''noisy_P3.csv'', frame_rps 760),
      (''noisy_P4.csv'', frame_rps 790), (''noisy_P9.csv'', frame_rps 910),
      (''noisy_P19.csv'', frame_rps 940)]"

definition single_depth_files :: "string list" where
  "single_depth_files =
     [''run1_P10.csv'', ''run2_P10.csv'', ''run3_P10.csv'', ''run4_P10.csv'', ''run5_P10.csv'']"

definition single_depth_fs :: filesystem where
  "single_depth_fs = map_of
     [(''run1_P10.csv'', frame_rps 100000), (''run2_P10.csv'', frame_rps 101000),
      (''run3_P10.csv'', frame_rps 99000), (''run4_P10.csv'', frame_rps 100500),
      (''run5_P10.csv'', frame_rps 99500)]"



section \<open>Loading the examples\<close>

lemmas eval_load = data_point_def iloc0_def is_digit_def int_of_digits_def digit_val_def
  frame_rps_def frame_rps_latency_def

lemma exact_points:
  "collect_data_points exact_fs exact_files [] = [(19, 950), (1, 500), (4, 800), (3, 750), (9, 900)]"
  by (simp add: exact_fs_def exact_files_def eval_load)

lemma faster_points:
  "collect_data_points faster_fs exact_files [] = [(19, 1900), (1, 1000), (4, 1600), (3, 1500), (9, 1800)]"
  by (simp add: faster_fs_def exact_files_def eval_load)

lemma flat_points:
  "collect_data_points flat_fs flat_files [] = [(1, 1024), (2, 2048), (3, 3072), (4, 4096), (5, 5120)]"
  by (simp add: flat_fs_def flat_files_def eval_load)

lemma noisy_points:
  "collect_data_points noisy_fs noisy_files [] = [(1, 480), (3, 760), (4, 790), (9, 910), (19, 940)]"
  by (simp add: noisy_fs_def noisy_files_def eval_load)

lemma single_depth_points:
  "collect_data_points single_depth_fs single_depth_files [] =
     [(10, 100000), (10, 101000), (10, 99000), (10, 100500), (10, 99500)]"
  by (simp add: single_depth_fs_def single_depth_files_def eval_load)

section \<open>Pipeline closure\<close>






section \<open>Syscall budget\<close>

lemma syscall_loop_ok:
  "\<forall>p\<in>set ps. C * int p \<noteq> 0 \<Longrightarrow>
   syscall_loop C ps acc = Inr (acc @ map (\<lambda>p. (p, 2 / (real_of_int C * real p))) ps)"
  by (induction ps arbitrary: acc) auto

text \<open>
  Claim C8, amended. For every sequence of depths and every concurrency \<open>C\<close> such that no
  product \<open>C * p\<close> is zero, the check reports passed and returns \<open>2 / (C * p)\<close> for each
  depth of the sequence, in order.
\<close>

theorem syscall_budget_passes:
  assumes "\<forall>p\<in>set p_values. C * int p \<noteq> 0"
  shows "validate_syscall_invariant p_values C =
     Inr (True, map (\<lambda>p. (p, 2 / (real_of_int C * real p))) p_values)"
  using syscall_loop_ok[OF assms, of "[]"] by (simp add: validate_syscall_invariant_def)

theorem syscall_budget_passes_witness:
  "validate_syscall_invariant [1, 2, 4] 50 = Inr (True, [(1, 2 / 50), (2, 2 / 100), (4, 2 / 200)])"
proof -
  have "\<forall>p\<in>set [1, 2, 4 :: nat]. (50::int) * int p \<noteq> 0" by simp
  from syscall_budget_passes[OF this] show ?thesis by simp
qed

text \<open>
  Claim C8 as stated, for every concurrency value, fails at \<open>C = 0\<close>: the division raises
  and no result is reported.
\<close>

theorem syscall_budget_zero_concurrency_raises:
  "validate_syscall_invariant [1, 2, 4] 0 = Inl ZeroDivisionError"
  by (simp add: validate_syscall_invariant_def)

section \<open>The fitter on finite data\<close>

lemma np_sum_Fin: "np_sum (map Fin vs) = Fin (sum_list vs)"
  by (induction vs) (simp_all add: np_sum_def)

lemma np_mean_Fin: "vs \<noteq> [] \<Longrightarrow> np_mean (map Fin vs) = Fin (mean vs)"
  by (simp add: np_mean_def np_sum_Fin mean_def)

lemma fsub_Fin [simp]: "fsub (Fin a) (Fin b) = Fin (a - b)"
  by (simp add: fsub_def)

lemma fsquare_Fin [simp]: "fsquare (Fin a) = Fin (a\<^sup>2)"
  by (simp add: fsquare_def power2_eq_square)

lemma polyfit_Fin:
  assumes "xs \<noteq> []" "length ys = length xs" "sum_sq_dev xs \<noteq> 0"
  shows "np_polyfit1 (map Fin xs) (map Fin ys) = (Fin (ols_slope xs ys), Fin (ols_intercept xs ys))"
proof -
  have ys: "ys \<noteq> []" using assms by auto
  have sxy: "np_sum (map (\<lambda>(xi, yi). fmul (fsub xi (Fin (mean xs))) (fsub yi (Fin (mean ys))))
               (zip (map Fin xs) (map Fin ys))) = Fin (Sxy xs ys)"
  proof -
    have "map (\<lambda>(xi, yi). fmul (fsub xi (Fin (mean xs))) (fsub yi (Fin (mean ys))))
               (zip (map Fin xs) (map Fin ys))
          = map Fin (map (\<lambda>(x, y). (x - mean xs) * (y - mean ys)) (zip xs ys))"
      by (simp add: zip_map_map case_prod_beta)
    then show ?thesis by (simp only: np_sum_Fin Sxy_def)
  qed
  have sxx: "np_sum (map (\<lambda>xi. fsquare (fsub xi (Fin (mean xs)))) (map Fin xs)) = Fin (sum_sq_dev xs)"
  proof -
    have "map (\<lambda>xi. fsquare (fsub xi (Fin (mean xs)))) (map Fin xs)
          = map Fin (map (\<lambda>x. (x - mean xs)\<^sup>2) xs)"
      by simp
    then show ?thesis by (simp only: np_sum_Fin sum_sq_dev_def)
  qed
  show ?thesis
    unfolding np_polyfit1_def Let_def np_mean_Fin[OF assms(1)] np_mean_Fin[OF ys] sxy sxx
    using assms(3) by (simp add: ols_slope_def ols_intercept_def)
qed

lemma sum_sq_dev_nonneg: "0 \<le> sum_sq_dev xs"
  unfolding sum_sq_dev_def by (rule sum_list_nonneg) auto

lemma SS_res_nonneg: "0 \<le> SS_res xs ys"
  unfolding SS_res_def by (rule sum_list_nonneg) auto

lemma p_values_Fin:
  "map (\<lambda>point. Fin (real (fst point))) (sort dps) = map Fin (depths dps)"
  by (simp add: depths_def)

lemma y_Fin_gen:
  "\<forall>d\<in>set l. snd d \<noteq> 0 \<Longrightarrow>
   map (\<lambda>(p, T). fdiv p T)
     (zip (map (\<lambda>point. Fin (real (fst point))) l) (map (\<lambda>point. Fin (snd point)) l))
   = map Fin (map (\<lambda>point. real (fst point) / snd point) l)"
  for l :: "(nat \<times> real) list"
  by (induction l) auto

lemma y_Fin:
  assumes "\<forall>d\<in>set dps. snd d \<noteq> 0"
  shows "map (\<lambda>(p, T). fdiv p T)
           (zip (map Fin (depths dps)) (map (\<lambda>point. Fin (snd point)) (sort dps)))
         = map Fin (linearized dps)"
proof -
  have "\<forall>d\<in>set (sort dps). snd d \<noteq> 0" using assms by simp
  from y_Fin_gen[OF this] show ?thesis
    by (simp add: depths_def linearized_def comp_def)
qed

lemma y_pred_Fin:
  "map (\<lambda>xi. fadd (Fin (ols_intercept xs ys)) (fmul (Fin (ols_slope xs ys)) xi)) (map Fin xs)
   = map Fin (predicted xs ys)"
  by (simp add: predicted_def)

lemma ss_res_Fin:
  "np_sum (map (\<lambda>(yi, yp). fsquare (fsub yi yp)) (zip (map Fin ys) (map Fin (predicted xs ys))))
   = Fin (SS_res xs ys)"
proof -
  have "map (\<lambda>(yi, yp). fsquare (fsub yi yp)) (zip (map Fin ys) (map Fin (predicted xs ys)))
        = map Fin (map (\<lambda>(y, y_hat). (y - y_hat)\<^sup>2) (zip ys (predicted xs ys)))"
    by (simp add: zip_map_map case_prod_beta)
  then show ?thesis by (simp only: np_sum_Fin SS_res_def)
qed

lemma sxx_Fin:
  "np_sum (map (\<lambda>xi. fsquare (fsub xi (Fin (mean xs)))) (map Fin xs)) = Fin (sum_sq_dev xs)"
proof -
  have "map (\<lambda>vi. fsquare (fsub vi (Fin (mean xs)))) (map Fin xs)
        = map Fin (map (\<lambda>v. (v - mean xs)\<^sup>2) xs)"
    by simp
  then show ?thesis by (simp only: np_sum_Fin sum_sq_dev_def)
qed

lemma mse_Fin:
  "2 < length xs \<Longrightarrow>
   fdiv (Fin (SS_res xs ys)) (Fin (real (length (map Fin xs)) - 2)) = Fin (MSE xs ys)"
  by (simp add: MSE_def)

lemma se_slope_Fin:
  assumes "2 < length xs" "sum_sq_dev xs \<noteq> 0"
  shows "fsqrt (fdiv (Fin (MSE xs ys)) (Fin (sum_sq_dev xs))) = Fin (SE_slope xs ys)"
proof -
  have "0 \<le> MSE xs ys" unfolding MSE_def using SS_res_nonneg[of xs ys] assms(1) by simp
  moreover have "0 < sum_sq_dev xs" using sum_sq_dev_nonneg[of xs] assms(2) by simp
  ultimately have "0 \<le> MSE xs ys / sum_sq_dev xs" by simp
  then show ?thesis using assms(2) by (simp add: SE_slope_def)
qed

lemma se_intercept_Fin:
  assumes "2 < length xs" "sum_sq_dev xs \<noteq> 0"
  shows "fsqrt (fmul (Fin (MSE xs ys))
           (fadd (Fin (1 / real (length (map Fin xs)))) (fdiv (fsquare (Fin (mean xs))) (Fin (sum_sq_dev xs)))))
         = Fin (SE_intercept xs ys)"
proof -
  have "0 \<le> MSE xs ys" unfolding MSE_def using SS_res_nonneg[of xs ys] assms(1) by simp
  moreover have "0 < sum_sq_dev xs" using sum_sq_dev_nonneg[of xs] assms(2) by simp
  ultimately have "0 \<le> MSE xs ys * (1 / real (length xs) + (mean xs)\<^sup>2 / sum_sq_dev xs)"
    by (intro mult_nonneg_nonneg add_nonneg_nonneg) simp_all
  then show ?thesis using assms(2) by (simp add: SE_intercept_def)
qed

lemma SE_nonneg:
  assumes "2 < length xs" "sum_sq_dev xs \<noteq> 0"
  shows "0 \<le> SE_slope xs ys" "0 \<le> SE_intercept xs ys"
proof -
  have m: "0 \<le> MSE xs ys" unfolding MSE_def using SS_res_nonneg[of xs ys] assms(1) by simp
  have s: "0 < sum_sq_dev xs" using sum_sq_dev_nonneg[of xs] assms(2) by simp
  show "0 \<le> SE_slope xs ys" unfolding SE_slope_def using m s by simp
  have "0 \<le> MSE xs ys * (1 / real (length xs) + (mean xs)\<^sup>2 / sum_sq_dev xs)"
    using m s by (intro mult_nonneg_nonneg add_nonneg_nonneg) simp_all
  then show "0 \<le> SE_intercept xs ys" unfolding SE_intercept_def by simp
qed

text \<open>
  With at least five data points, non-zero throughputs and depths that are not all equal,
  every intermediate value of the fitter is finite and the result is the one of the
  reference quantities.
\<close>

lemma fit_finite:
  assumes n: "5 \<le> length dps"
    and T: "\<forall>d\<in>set dps. snd d \<noteq> 0"
    and sxx: "sum_sq_dev (depths dps) \<noteq> 0"
  shows "fit_data_points t_ppf dps =
    (let xs = depths dps; ys = linearized dps;
         a = ols_slope xs ys; b = ols_intercept xs ys;
         h0 = t_ppf (length dps - 2) * SE_intercept xs ys * 1000000;
         h1 = t_ppf (length dps - 2) * SE_slope xs ys * 1000000000
     in Some \<lparr> t0_us_per_batch = Fin (b * 1000000),
               t1_ns_per_op = Fin (a * 1000000000),
               r_squared = fsub (Fin 1) (fdiv (Fin (SS_res xs ys)) (Fin (sum_sq_dev ys))),
               t0_confidence_interval = [Fin (b * 1000000 - h0), Fin (b * 1000000 + h0)],
               t1_confidence_interval = [Fin (a * 1000000000 - h1), Fin (a * 1000000000 + h1)],
               Tmax_Mops_s = (if a > 0 then Fin (1 / (a * 1000000)) else PInf),
               data_points = length dps,
               raw_data = zip (map Fin xs) (map (\<lambda>point. Fin (snd point)) (sort dps)) \<rparr>)"
proof -
  let ?xs = "depths dps" and ?ys = "linearized dps"
  have len: "length ?xs = length dps" "length ?ys = length dps"
    by (simp_all add: depths_def linearized_def)
  have ne: "?xs \<noteq> []" "?ys \<noteq> []" using n len by auto
  have l2: "2 < length ?xs" using n len by simp
  have pf: "np_polyfit1 (map Fin ?xs) (map Fin ?ys) = (Fin (ols_slope ?xs ?ys), Fin (ols_intercept ?xs ?ys))"
    by (rule polyfit_Fin) (use ne len sxx in auto)
  have nlt: "\<not> length dps < 5" using n by simp
  show ?thesis
    unfolding fit_data_points_def Let_def if_not_P[OF nlt] p_values_Fin y_Fin[OF T] pf fst_conv snd_conv
      y_pred_Fin ss_res_Fin sxx_Fin np_mean_Fin[OF ne(1)] np_mean_Fin[OF ne(2)]
      mse_Fin[OF l2] se_slope_Fin[OF l2 sxx] se_intercept_Fin[OF l2 sxx]
    using len by simp
qed

lemma fit_Some_iff: "fit_data_points t_ppf dps \<noteq> None \<longleftrightarrow> 5 \<le> length dps"
proof (cases "length dps < 5")
  case True
  then show ?thesis by (simp add: fit_data_points_def)
next
  case False
  then have "5 \<le> length dps" by simp
  then show ?thesis
    unfolding fit_data_points_def Let_def if_not_P[OF False]
    by (simp only: option.distinct not_False_eq_True)
qed

lemma fit_result_shape:
  assumes "fit_data_points t_ppf dps = Some r"
  shows "\<exists>c. t1_ns_per_op r = fmul c (Fin 1000000000)
           \<and> Tmax_Mops_s r = (if fgt c (Fin 0) then fdiv (Fin 1) (fmul c (Fin 1000000)) else PInf)"
proof (cases "length dps < 5")
  case True
  then show ?thesis using assms by (simp add: fit_data_points_def)
next
  case False
  show ?thesis
    apply (rule exI)
    apply (subst assms[unfolded fit_data_points_def Let_def if_not_P[OF False] option.inject, symmetric])+
    apply (simp only: fit_results.simps)
    done
qed

lemma fit_raw_data:
  assumes "fit_data_points t_ppf dps = Some r"
  shows "raw_data r = zip (map (\<lambda>point. Fin (real (fst point))) (sort dps))
                          (map (\<lambda>point. Fin (snd point)) (sort dps))"
proof (cases "length dps < 5")
  case True
  then show ?thesis using assms by (simp add: fit_data_points_def)
next
  case False
  show ?thesis
    apply (subst assms[unfolded fit_data_points_def Let_def if_not_P[OF False] option.inject, symmetric])+
    apply (simp only: fit_results.simps)
    done
qed

section \<open>Regression algebra\<close>

lemma sum_list_nonneg_zero:
  "\<forall>w\<in>set ws. 0 \<le> w \<Longrightarrow> sum_list ws = 0 \<Longrightarrow> w \<in> set ws \<Longrightarrow> w = 0" for w :: real
proof (induction ws)
  case Nil
  then show ?case by simp
next
  case (Cons a ws)
  have "0 \<le> sum_list ws" by (rule sum_list_nonneg) (use Cons.prems in auto)
  moreover have "0 \<le> a" using Cons.prems by simp
  ultimately have "a = 0" "sum_list ws = 0" using Cons.prems(2) by simp_all
  then show ?case using Cons by auto
qed

lemma sum_sq_dev_zero_all_mean:
  assumes "sum_sq_dev vs = 0" "v \<in> set vs"
  shows "v = mean vs"
proof -
  let ?ws = "map (\<lambda>v. (v - mean vs)\<^sup>2) vs"
  have "sum_list ?ws = 0" using assms(1) by (simp add: sum_sq_dev_def)
  moreover have "\<forall>w\<in>set ?ws. 0 \<le> w" by auto
  moreover have "(v - mean vs)\<^sup>2 \<in> set ?ws" using assms(2) by auto
  ultimately have "(v - mean vs)\<^sup>2 = 0"
    using sum_list_nonneg_zero[of ?ws "(v - mean vs)\<^sup>2"] by blast
  then show ?thesis by simp
qed

lemma sum_sq_dev_distinct:
  assumes "a \<in> set vs" "b \<in> set vs" "a \<noteq> b"
  shows "sum_sq_dev vs \<noteq> 0"
proof
  assume z: "sum_sq_dev vs = 0"
  have "a = mean vs" "b = mean vs"
    using sum_sq_dev_zero_all_mean[OF z] assms(1,2) by blast+
  then show False using assms(3) by simp
qed

lemma depths_distinct:
  assumes "d \<in> set dps" "e \<in> set dps" "fst d \<noteq> fst e"
  shows "sum_sq_dev (depths dps) \<noteq> 0"
proof (rule sum_sq_dev_distinct)
  show "real (fst d) \<in> set (depths dps)" using assms(1) by (force simp: depths_def)
  show "real (fst e) \<in> set (depths dps)" using assms(2) by (force simp: depths_def)
  show "real (fst d) \<noteq> real (fst e)" using assms(3) by simp
qed

lemma two_depths:
  assumes "2 \<le> distinct_depths dps"
  shows "sum_sq_dev (depths dps) \<noteq> 0"
proof -
  have c: "2 \<le> card (set (map fst dps))"
    using assms by (simp add: distinct_depths_def length_remdups_card_conv)
  have "\<exists>a\<in>set (map fst dps). \<exists>b\<in>set (map fst dps). a \<noteq> b"
  proof (rule ccontr)
    assume "\<not> ?thesis"
    then have "\<forall>a\<in>set (map fst dps). \<forall>b\<in>set (map fst dps). a = b" by blast
    then have "card (set (map fst dps)) \<le> 1"
      by (metis List.finite_set card_le_Suc0_iff_eq One_nat_def)
    then show False using c by simp
  qed
  then obtain d e where "d \<in> set dps" "e \<in> set dps" "fst d \<noteq> fst e" by auto
  then show ?thesis by (rule depths_distinct)
qed

lemma sum_list_affine:
  "(\<Sum>x\<leftarrow>xs. c + k * x) = c * real (length xs) + k * sum_list xs" for c k :: real
  by (induction xs) (simp_all add: algebra_simps)

lemma mean_affine:
  "xs \<noteq> [] \<Longrightarrow> mean (map (\<lambda>x. c + k * x) xs) = c + k * mean xs"
  by (simp add: mean_def sum_list_affine comp_def add_divide_distrib)

lemma Sxy_affine:
  assumes "xs \<noteq> []"
  shows "Sxy xs (map (\<lambda>x. c + k * x) xs) = k * sum_sq_dev xs"
proof -
  have "map (\<lambda>(x, y). (x - mean xs) * (y - mean (map (\<lambda>x. c + k * x) xs)))
          (zip xs (map (\<lambda>x. c + k * x) xs))
        = map (\<lambda>x. k * (x - mean xs)\<^sup>2) xs"
    unfolding mean_affine[OF assms]
    by (simp add: zip_map2 zip_same_conv_map comp_def algebra_simps power2_eq_square)
  then show ?thesis
    unfolding Sxy_def sum_sq_dev_def by (simp add: sum_list_const_mult)
qed

lemma ols_exact:
  assumes "xs \<noteq> []" "sum_sq_dev xs \<noteq> 0"
  shows "ols_slope xs (map (\<lambda>x. c + k * x) xs) = k"
    and "ols_intercept xs (map (\<lambda>x. c + k * x) xs) = c"
proof -
  show s: "ols_slope xs (map (\<lambda>x. c + k * x) xs) = k"
    using assms by (simp add: ols_slope_def Sxy_affine)
  show "ols_intercept xs (map (\<lambda>x. c + k * x) xs) = c"
    unfolding ols_intercept_def s mean_affine[OF assms(1)] by simp
qed

lemma SS_res_exact:
  assumes "xs \<noteq> []" "sum_sq_dev xs \<noteq> 0"
  shows "SS_res xs (map (\<lambda>x. c + k * x) xs) = 0"
  unfolding SS_res_def predicted_def ols_exact[OF assms]
  by (simp add: zip_same_conv_map comp_def)

lemma sum_sq_dev_affine:
  assumes "xs \<noteq> []"
  shows "sum_sq_dev (map (\<lambda>x. c + k * x) xs) = k\<^sup>2 * sum_sq_dev xs"
proof -
  have e: "(c + k * x - (c + k * m))\<^sup>2 = k\<^sup>2 * (x - m)\<^sup>2" for x m :: real
    by (simp add: algebra_simps power2_eq_square)
  have "map (\<lambda>v. (v - mean (map (\<lambda>x. c + k * x) xs))\<^sup>2) (map (\<lambda>x. c + k * x) xs)
        = map (\<lambda>x. k\<^sup>2 * (x - mean xs)\<^sup>2) xs"
    unfolding mean_affine[OF assms] map_map comp_def e ..
  then show ?thesis unfolding sum_sq_dev_def by (simp only: sum_list_const_mult)
qed

lemma linearized_exact:
  assumes "\<forall>d\<in>set dps. 1 \<le> fst d \<and> 0 < t0 + t1 * real (fst d)
             \<and> snd d = real (fst d) / (t0 + t1 * real (fst d))"
  shows "linearized dps = map (\<lambda>x. t0 + t1 * x) (depths dps)"
proof -
  have "real (fst d) / snd d = t0 + t1 * real (fst d)" if "d \<in> set (sort dps)" for d
  proof -
    have d: "1 \<le> fst d" "0 < t0 + t1 * real (fst d)"
      "snd d = real (fst d) / (t0 + t1 * real (fst d))"
      using assms that by auto
    then show ?thesis by simp
  qed
  then show ?thesis by (simp add: linearized_def depths_def)
qed

lemma exact_nonzero:
  assumes "\<forall>d\<in>set dps. 1 \<le> fst d \<and> 0 < t0 + t1 * real (fst d)
             \<and> snd d = real (fst d) / (t0 + t1 * real (fst d))"
  shows "\<forall>d\<in>set dps. snd d \<noteq> 0"
proof
  fix d assume "d \<in> set dps"
  then have d: "1 \<le> fst d" "0 < t0 + t1 * real (fst d)"
      "snd d = real (fst d) / (t0 + t1 * real (fst d))"
    using assms by auto
  then show "snd d \<noteq> 0" by simp
qed

lemma fit_exact:
  assumes n: "5 \<le> length dps"
    and two: "2 \<le> distinct_depths dps"
    and ex: "\<forall>d\<in>set dps. 1 \<le> fst d \<and> 0 < t0 + t1 * real (fst d)
               \<and> snd d = real (fst d) / (t0 + t1 * real (fst d))"
  shows "\<exists>r. fit_data_points t_ppf dps = Some r
           \<and> t0_us_per_batch r = Fin (t0 * 1000000)
           \<and> t1_ns_per_op r = Fin (t1 * 1000000000)
           \<and> r_squared r = fsub (Fin 1) (fdiv (Fin 0) (Fin (t1\<^sup>2 * sum_sq_dev (depths dps))))"
proof -
  have sxx: "sum_sq_dev (depths dps) \<noteq> 0" using two by (rule two_depths)
  have "length (depths dps) = length dps" by (simp add: depths_def)
  then have ne: "depths dps \<noteq> []" using n by auto
  note lin = linearized_exact[OF ex]
  show ?thesis
    unfolding fit_finite[OF n exact_nonzero[OF ex] sxx] Let_def lin
      ols_exact[OF ne sxx] SS_res_exact[OF ne sxx] sum_sq_dev_affine[OF ne]
    by simp
qed

lemma exact_points_ok:
  "\<forall>d\<in>set [(19::nat, 950::real), (1, 500), (4, 800), (3, 750), (9, 900)].
      1 \<le> fst d \<and> 0 < 1 / 1000 + 1 / 1000 * real (fst d)
      \<and> snd d = real (fst d) / (1 / 1000 + 1 / 1000 * real (fst d))"
  by simp

lemma faster_points_ok:
  "\<forall>d\<in>set [(19::nat, 1900::real), (1, 1000), (4, 1600), (3, 1500), (9, 1800)].
      1 \<le> fst d \<and> 0 < 1 / 2000 + 1 / 2000 * real (fst d)
      \<and> snd d = real (fst d) / (1 / 2000 + 1 / 2000 * real (fst d))"
  by simp

lemma flat_points_ok:
  "\<forall>d\<in>set [(1::nat, 1024::real), (2, 2048), (3, 3072), (4, 4096), (5, 5120)].
      1 \<le> fst d \<and> 0 < 1 / 1024 + 0 * real (fst d)
      \<and> snd d = real (fst d) / (1 / 1024 + 0 * real (fst d))"
  by simp

lemma exact_t1:
  "\<exists>r. fit_batched_service_model t_ppf exact_fs exact_files = Some r \<and> t1_ns_per_op r = Fin 1000000"
proof -
  have "\<exists>r. fit_data_points t_ppf [(19, 950), (1, 500), (4, 800), (3, 750), (9, 900)] = Some r
           \<and> t0_us_per_batch r = Fin (1 / 1000 * 1000000)
           \<and> t1_ns_per_op r = Fin (1 / 1000 * 1000000000)
           \<and> r_squared r = fsub (Fin 1) (fdiv (Fin 0)
                (Fin ((1 / 1000)\<^sup>2 * sum_sq_dev (depths [(19, 950), (1, 500), (4, 800), (3, 750), (9, 900)]))))"
    by (rule fit_exact[OF _ _ exact_points_ok]) (simp_all add: distinct_depths_def)
  then show ?thesis by (auto simp: fit_batched_service_model_def exact_points)
qed

lemma faster_t1:
  "\<exists>r. fit_batched_service_model t_ppf faster_fs exact_files = Some r \<and> t1_ns_per_op r = Fin 500000"
proof -
  have "\<exists>r. fit_data_points t_ppf [(19, 1900), (1, 1000), (4, 1600), (3, 1500), (9, 1800)] = Some r
           \<and> t0_us_per_batch r = Fin (1 / 2000 * 1000000)
           \<and> t1_ns_per_op r = Fin (1 / 2000 * 1000000000)
           \<and> r_squared r = fsub (Fin 1) (fdiv (Fin 0)
                (Fin ((1 / 2000)\<^sup>2 * sum_sq_dev (depths [(19, 1900), (1, 1000), (4, 1600), (3, 1500), (9, 1800)]))))"
    by (rule fit_exact[OF _ _ faster_points_ok]) (simp_all add: distinct_depths_def)
  then show ?thesis by (auto simp: fit_batched_service_model_def faster_points)
qed

lemma flat_fit:
  "\<exists>r. fit_batched_service_model t_ppf flat_fs flat_files = Some r \<and> r_squared r = NaN
        \<and> t1_ns_per_op r = Fin 0"
proof -
  have "\<exists>r. fit_data_points t_ppf [(1, 1024), (2, 2048), (3, 3072), (4, 4096), (5, 5120)] = Some r
           \<and> t0_us_per_batch r = Fin (1 / 1024 * 1000000)
           \<and> t1_ns_per_op r = Fin (0 * 1000000000)
           \<and> r_squared r = fsub (Fin 1) (fdiv (Fin 0)
                (Fin (0\<^sup>2 * sum_sq_dev (depths [(1, 1024), (2, 2048), (3, 3072), (4, 4096), (5, 5120)]))))"
    by (rule fit_exact[OF _ _ flat_points_ok]) (simp_all add: distinct_depths_def)
  then show ?thesis
    by (auto simp: fit_batched_service_model_def flat_points fsub_def)
qed

lemma flat_t1:
  "\<exists>r. fit_batched_service_model t_ppf flat_fs flat_files = Some r \<and> t1_ns_per_op r = Fin 0"
  using flat_fit[of t_ppf] by blast

section \<open>Properties of the fitter\<close>

text \<open>
  Claim C1, amended. For every set of files that yields at least five data points with
  at least two distinct depths, whose throughputs are exactly \<open>p / (t0 + t1 * p)\<close> with
  \<open>t1 \<noteq> 0\<close>, the fitter returns a result with \<open>t0\<close> and \<open>t1\<close> recovered (in microseconds
  and nanoseconds) and R-squared equal to 1.
\<close>

theorem fit_recovers_exact_model:
  assumes "collect_data_points fs csv_files [] = dps"
    and "5 \<le> length dps"
    and "2 \<le> distinct_depths dps"
    and "\<forall>d\<in>set dps. 1 \<le> fst d \<and> 0 < t0 + t1 * real (fst d)
           \<and> snd d = real (fst d) / (t0 + t1 * real (fst d))"
    and "t1 \<noteq> 0"
  shows "\<exists>r. fit_batched_service_model t_ppf fs csv_files = Some r
           \<and> t0_us_per_batch r = Fin (t0 * 1000000)
           \<and> t1_ns_per_op r = Fin (t1 * 1000000000)
           \<and> r_squared r = Fin 1"
proof -
  have "sum_sq_dev (depths dps) \<noteq> 0" using assms(3) by (rule two_depths)
  then have "t1\<^sup>2 * sum_sq_dev (depths dps) \<noteq> 0" using assms(5) by simp
  then have "fsub (Fin 1) (fdiv (Fin 0) (Fin (t1\<^sup>2 * sum_sq_dev (depths dps)))) = Fin 1"
    by simp
  then show ?thesis
    using fit_exact[OF assms(2,3,4), of t_ppf] assms(1)
    by (auto simp: fit_batched_service_model_def)
qed

theorem fit_recovers_exact_model_witness:
  "\<exists>r. fit_batched_service_model student_t_975 exact_fs exact_files = Some r
           \<and> t0_us_per_batch r = Fin 1000
           \<and> t1_ns_per_op r = Fin 1000000
           \<and> r_squared r = Fin 1"
  using fit_recovers_exact_model[OF exact_points _ _ exact_points_ok, of student_t_975]
  by (simp add: distinct_depths_def)

text \<open>
  Claim C1 as stated fails for \<open>t1 = 0\<close>: five depths with throughput \<open>1024 * p\<close> follow
  the model with \<open>t0 = 1/1024\<close> exactly, all linearized values are equal, and R-squared
  is zero divided by zero.
\<close>

theorem flat_model_r_squared_not_one:
  "collect_data_points flat_fs flat_files [] = [(1, 1024), (2, 2048), (3, 3072), (4, 4096), (5, 5120)]
   \<and> (1024::real) = 1 / (1 / 1024 + 0 * 1) \<and> (2048::real) = 2 / (1 / 1024 + 0 * 2)
   \<and> (3072::real) = 3 / (1 / 1024 + 0 * 3) \<and> (4096::real) = 4 / (1 / 1024 + 0 * 4)
   \<and> (5120::real) = 5 / (1 / 1024 + 0 * 5)
   \<and> fit_batched_service_model student_t_975 flat_fs flat_files \<noteq> None
   \<and> r_squared (the (fit_batched_service_model student_t_975 flat_fs flat_files)) \<noteq> Fin 1"
  using flat_fit[of student_t_975] flat_points by auto

text \<open>
  Claim C3, amended. The fitter returns \<open>None\<close>, and no result, exactly when fewer than
  five data points were loaded; the number of distinct depths plays no part.
\<close>

theorem fit_rejects_iff_fewer_than_five:
  "fit_batched_service_model t_ppf fs csv_files = None
     \<longleftrightarrow> length (collect_data_points fs csv_files []) < 5"
  using fit_Some_iff[of t_ppf "collect_data_points fs csv_files []"]
  by (auto simp: fit_batched_service_model_def)

text \<open>
  Claim C3 as stated fails on five runs at the single depth 10: one distinct depth, and
  the fitter does not return \<open>None\<close>.
\<close>

theorem single_depth_not_rejected:
  "distinct_depths (collect_data_points single_depth_fs single_depth_files []) = 1
   \<and> fit_batched_service_model student_t_975 single_depth_fs single_depth_files \<noteq> None"
  using fit_Some_iff[of student_t_975 "collect_data_points single_depth_fs single_depth_files []"]
  by (simp add: fit_batched_service_model_def single_depth_points distinct_depths_def)




text \<open>
  Claim C6. For every valid input (at least two distinct depths, positive throughputs)
  on which the fitter returns a result, and a non-negative critical value, each
  confidence interval has two bounds and contains its point estimate.
\<close>

theorem confidence_intervals_contain_estimates:
  assumes "fit_batched_service_model t_ppf fs csv_files = Some r"
    and "collect_data_points fs csv_files [] = dps"
    and "2 \<le> distinct_depths dps"
    and "\<forall>d\<in>set dps. 0 < snd d"
    and "0 \<le> t_ppf (length dps - 2)"
  shows "length (t0_confidence_interval r) = 2 \<and> length (t1_confidence_interval r) = 2
       \<and> fle (t0_confidence_interval r ! 0) (t0_us_per_batch r)
       \<and> fle (t0_us_per_batch r) (t0_confidence_interval r ! 1)
       \<and> fle (t1_confidence_interval r ! 0) (t1_ns_per_op r)
       \<and> fle (t1_ns_per_op r) (t1_confidence_interval r ! 1)"
proof -
  have n: "5 \<le> length dps"
    using assms(1,2) fit_Some_iff[of t_ppf dps] by (simp add: fit_batched_service_model_def)
  have T: "\<forall>d\<in>set dps. snd d \<noteq> 0" using assms(4) by auto
  let ?xs = "depths dps" and ?ys = "linearized dps"
  have l: "2 < length ?xs" using n by (simp add: depths_def)
  note se = SE_nonneg[OF l two_depths[OF assms(3)], of ?ys]
  have h0: "0 \<le> t_ppf (length dps - 2) * SE_intercept ?xs ?ys * 1000000"
    using assms(5) se(2) by simp
  have h1: "0 \<le> t_ppf (length dps - 2) * SE_slope ?xs ?ys * 1000000000"
    using assms(5) se(1) by simp
  from assms(1)[unfolded fit_batched_service_model_def assms(2)
      fit_finite[OF n T two_depths[OF assms(3)]] Let_def option.inject, symmetric]
  show ?thesis using h0 h1 by simp
qed

theorem confidence_intervals_contain_estimates_witness:
  "length (t0_confidence_interval (the (fit_batched_service_model student_t_975 noisy_fs noisy_files))) = 2
   \<and> fle (t0_confidence_interval (the (fit_batched_service_model student_t_975 noisy_fs noisy_files)) ! 0)
         (t0_us_per_batch (the (fit_batched_service_model student_t_975 noisy_fs noisy_files)))
   \<and> fle (t0_us_per_batch (the (fit_batched_service_model student_t_975 noisy_fs noisy_files)))
         (t0_confidence_interval (the (fit_batched_service_model student_t_975 noisy_fs noisy_files)) ! 1)
   \<and> fle (t1_confidence_interval (the (fit_batched_service_model student_t_975 noisy_fs noisy_files)) ! 0)
         (t1_ns_per_op (the (fit_batched_service_model student_t_975 noisy_fs noisy_files)))
   \<and> fle (t1_ns_per_op (the (fit_batched_service_model student_t_975 noisy_fs noisy_files)))
         (t1_confidence_interval (the (fit_batched_service_model student_t_975 noisy_fs noisy_files)) ! 1)"
proof -
  have "fit_batched_service_model student_t_975 noisy_fs noisy_files \<noteq> None"
    using fit_Some_iff[of student_t_975 "collect_data_points noisy_fs noisy_files []"]
    by (simp add: fit_batched_service_model_def noisy_points)
  then have s: "fit_batched_service_model student_t_975 noisy_fs noisy_files
      = Some (the (fit_batched_service_model student_t_975 noisy_fs noisy_files))" by simp
  show ?thesis
    using confidence_intervals_contain_estimates[OF s noisy_points]
    by (simp add: distinct_depths_def student_t_975_def)
qed

text \<open>
  Claim C7. For every result of the fitter, the saturation throughput in millions of
  operations per second is \<open>1 / t1\<close>, that is \<open>1000 / t1_ns\<close> with \<open>t1\<close> in nanoseconds per
  operation, when \<open>t1 > 0\<close>, and the infinite sentinel when \<open>t1 \<le> 0\<close> or \<open>t1\<close> is not a
  number; an infinite \<open>t1\<close> gives zero. Nothing is raised.
\<close>

theorem Tmax_from_t1:
  assumes "fit_batched_service_model t_ppf fs csv_files = Some r"
  shows "Tmax_Mops_s r =
     (case t1_ns_per_op r of
        Fin t1_ns \<Rightarrow> if 0 < t1_ns then Fin (1000 / t1_ns) else PInf
      | PInf \<Rightarrow> Fin 0
      | NInf \<Rightarrow> PInf
      | NaN \<Rightarrow> PInf)"
proof -
  obtain c where c: "t1_ns_per_op r = fmul c (Fin 1000000000)"
    "Tmax_Mops_s r = (if fgt c (Fin 0) then fdiv (Fin 1) (fmul c (Fin 1000000)) else PInf)"
    using fit_result_shape[OF assms(1)[unfolded fit_batched_service_model_def]] by blast
  show ?thesis
  proof (cases c)
    case (Fin v)
    then show ?thesis using c by (simp add: field_simps)
  next
    case PInf
    then show ?thesis using c by (simp add: scale_inf_def)
  next
    case NInf
    then show ?thesis using c by (simp add: scale_inf_def)
  next
    case NaN
    then show ?thesis using c by simp
  qed
qed

theorem Tmax_from_t1_witness:
  "Tmax_Mops_s (the (fit_batched_service_model student_t_975 exact_fs exact_files)) = Fin (1 / 1000)
   \<and> Tmax_Mops_s (the (fit_batched_service_model student_t_975 flat_fs flat_files)) = PInf"
proof -
  obtain r where r: "fit_batched_service_model student_t_975 exact_fs exact_files = Some r"
    "t1_ns_per_op r = Fin 1000000"
    using exact_t1[of student_t_975] by blast
  obtain q where q: "fit_batched_service_model student_t_975 flat_fs flat_files = Some q"
    "t1_ns_per_op q = Fin 0"
    using flat_t1[of student_t_975] by blast
  show ?thesis
    using Tmax_from_t1[OF r(1)] Tmax_from_t1[OF q(1)] r q by simp
qed

section \<open>Permutation of the input\<close>

lemma collect_acc:
  "collect_data_points fs files acc =
     acc @ concat (map (\<lambda>f. case data_point fs f of None \<Rightarrow> [] | Some pt \<Rightarrow> [pt]) files)"
  by (induction files arbitrary: acc) (auto split: option.splits)

lemma collect_mset:
  "mset files = mset files' \<Longrightarrow>
   mset (collect_data_points fs files []) = mset (collect_data_points fs files' [])"
proof -
  assume a: "mset files = mset files'"
  have "mset (concat (map g files)) = mset (concat (map g files'))" for g :: "string \<Rightarrow> (nat \<times> real) list"
  proof -
    have "mset (concat (map g l)) = (\<Sum>f\<in>#mset l. mset (g f))" for l
      by (induction l) auto
    then show ?thesis using a by simp
  qed
  then show ?thesis by (simp add: collect_acc)
qed

lemma fit_mset:
  assumes "mset dps = mset dps'"
  shows "fit_data_points t_ppf dps = fit_data_points t_ppf dps'"
proof -
  have l: "length dps = length dps'" using assms by (rule mset_eq_length)
  have s: "sort dps = sort dps'"
    by (rule properties_for_sort) (simp_all add: assms)
  show ?thesis unfolding fit_data_points_def l s ..
qed

lemma sorted_depths: "sorted (map fst (sort dps))" for dps :: "(nat \<times> real) list"
proof -
  have "sorted_wrt (\<le>) (sort dps)" by simp
  then have "sorted_wrt (\<lambda>d e. fst d \<le> fst e) (sort dps)"
    by (rule sorted_wrt_mono_rel[rotated]) (auto simp: less_eq_prod_def)
  then show ?thesis by (simp add: sorted_map)
qed

text \<open>
  Claim C10. For every two file lists that are reorderings of each other the fitter
  returns the same result, and the raw data of a result lists the data points sorted,
  ascending by depth.
\<close>

theorem fit_permutation_invariant:
  assumes "mset csv_files = mset csv_files'"
  shows "fit_batched_service_model t_ppf fs csv_files = fit_batched_service_model t_ppf fs csv_files'
       \<and> (\<forall>r. fit_batched_service_model t_ppf fs csv_files = Some r \<longrightarrow>
            raw_data r = map (\<lambda>point. (Fin (real (fst point)), Fin (snd point)))
                             (sort (collect_data_points fs csv_files []))
            \<and> sorted (map fst (sort (collect_data_points fs csv_files []))))"
proof
  show "fit_batched_service_model t_ppf fs csv_files = fit_batched_service_model t_ppf fs csv_files'"
    unfolding fit_batched_service_model_def
    by (rule fit_mset) (rule collect_mset[OF assms])
next
  show "\<forall>r. fit_batched_service_model t_ppf fs csv_files = Some r \<longrightarrow>
            raw_data r = map (\<lambda>point. (Fin (real (fst point)), Fin (snd point)))
                             (sort (collect_data_points fs csv_files []))
            \<and> sorted (map fst (sort (collect_data_points fs csv_files [])))"
    using fit_raw_data[of t_ppf "collect_data_points fs csv_files []"] sorted_depths
    by (simp add: fit_batched_service_model_def zip_map_map zip_same_conv_map)
qed

theorem fit_permutation_invariant_witness:
  "fit_batched_service_model student_t_975 exact_fs exact_files
     = fit_batched_service_model student_t_975 exact_fs exact_files_by_depth"
proof -
  have "mset exact_files = mset exact_files_by_depth"
    by (simp add: exact_files_def exact_files_by_depth_def)
  from fit_permutation_invariant[OF this] show ?thesis by blast
qed

section \<open>Cycles per operation\<close>

text \<open>
  Claim C4, amended. The check reports passed and the constant estimate
  \<open>69.6 * 3.5 = 243.6\<close> cycles per operation for every input; it depends on no fit
  and no clock frequency.
\<close>

theorem cycles_estimate_constant:
  "validate_cycles_per_op_band fs csv_files = (True, 2436 / 10)"
  by (simp add: validate_cycles_per_op_band_def)

text \<open>
  Claim C4 as stated fails: two sets of files whose fits have different \<open>t1\<close> get the same
  estimate.
\<close>

theorem cycles_estimate_ignores_fit:
  "t1_ns_per_op (the (fit_batched_service_model student_t_975 exact_fs exact_files)) = Fin 1000000
   \<and> t1_ns_per_op (the (fit_batched_service_model student_t_975 faster_fs exact_files)) = Fin 500000
   \<and> snd (validate_cycles_per_op_band exact_fs exact_files)
       = snd (validate_cycles_per_op_band faster_fs exact_files)"
  using exact_t1[of student_t_975] faster_t1[of student_t_975]
  by (auto simp: validate_cycles_per_op_band_def)

end
